theory Spec2Isabelle
  imports Complex_Main "HOL-Library.Word"
begin

section \<open>Shared data model\<close>

text \<open>
  The repository holds two POX controller components, \<^verbatim>\<open>SimpleLoadBalancer\<close>
  (\<^verbatim>\<open>simple_load_balancer.py\<close>) and \<^verbatim>\<open>LoadBalancerController\<close>
  (\<^verbatim>\<open>load_balancer_controller.py\<close>). Both are embedded below, each handler as a
  function from the component's state and the event to the new state and the list of
  effects the handler performs, in the order the source performs them. The definitions of
  the first component carry the prefix \<open>SLB_\<close>, those of the second the prefix
  \<open>LBC_\<close>; a leading underscore of a Python name is dropped.

  A switch is known to a handler by the string \<^verbatim>\<open>dpidToStr\<close> returns; a connection
  is identified by that string. Hardware addresses are 48-bit words, port numbers and
  EtherTypes are Python integers that are never negative, byte counters are Python
  integers. Python floats (time stamps, rates, utilization) are modelled as exact
  rationals, so rounding is not part of the model.
\<close>

type_synonym dpid = string
type_synonym mac = "48 word"
type_synonym port = nat

datatype error = KeyError

text \<open>Constants of the POX library (OpenFlow 1.0 reserved ports, EtherTypes).\<close>

definition OFPP_MAX :: port where "OFPP_MAX = 0xff00"
definition OFPP_FLOOD :: port where "OFPP_FLOOD = 0xfffb"
definition OFPP_CONTROLLER :: port where "OFPP_CONTROLLER = 0xfffd"
definition OFP_DEFAULT_PRIORITY :: nat where "OFP_DEFAULT_PRIORITY = 0x8000"
definition ARP_TYPE :: nat where "ARP_TYPE = 0x0806"
definition LLDP_TYPE :: nat where "LLDP_TYPE = 0x88cc"
definition IPV6_TYPE :: nat where "IPV6_TYPE = 0x86dd"

text \<open>The parsed Ethernet frame of a packet-in, with the fields the handlers read.\<close>

record ethernet =
  parsed :: bool
  src :: mac
  dst :: mac
  type :: nat

text \<open>The OpenFlow packet-in message carried by the event.\<close>

record ofp_packet_in =
  pi_data :: "8 word list"
  pi_in_port :: port

text \<open>
  A packet-in event: \<^verbatim>\<open>event.connection.dpid\<close> (already rendered by
  \<^verbatim>\<open>dpidToStr\<close>), \<^verbatim>\<open>event.port\<close>, \<^verbatim>\<open>event.parsed\<close> and \<^verbatim>\<open>event.ofp\<close>.
\<close>

record PacketIn =
  ev_dpid :: dpid
  ev_port :: port
  ev_parsed :: ethernet
  ev_ofp :: ofp_packet_in

text \<open>
  Messages sent to a switch. \<^verbatim>\<open>ofp_match()\<close> is the match with every field
  wildcarded, \<^verbatim>\<open>ofp_match.from_packet(packet, in_port)\<close> the exact match extracted
  from a packet at an ingress port; the extraction is the library's and is kept symbolic.
\<close>

datatype ofp_match = ofp_match_all | from_packet ethernet port

datatype ofp_action = ofp_action_output port

record ofp_flow_mod =
  match :: ofp_match
  actions :: "ofp_action list"
  priority :: nat
  idle_timeout :: nat
  hard_timeout :: nat

text \<open>
  \<^verbatim>\<open>of.ofp_flow_mod()\<close> with the library's defaults: wildcard match, no action,
  default priority, timeouts 0 (a timeout of 0 means the rule never expires).
\<close>

definition ofp_flow_mod_new :: ofp_flow_mod where
  "ofp_flow_mod_new =
     \<lparr>match = ofp_match_all, actions = [], priority = OFP_DEFAULT_PRIORITY,
      idle_timeout = 0, hard_timeout = 0\<rparr>"

text \<open>
  The payload of a packet-out: \<^verbatim>\<open>SimpleLoadBalancer\<close> assigns the whole packet-in
  message (\<^verbatim>\<open>event.ofp\<close>), \<^verbatim>\<open>LoadBalancerController\<close> its raw bytes
  (\<^verbatim>\<open>ofp.data\<close>).
\<close>

datatype payload = Of_packet_in ofp_packet_in | Raw "8 word list"

record ofp_packet_out =
  data :: payload
  po_actions :: "ofp_action list"
  in_port :: port

datatype ofp_message =
    Flow_mod ofp_flow_mod
  | Packet_out ofp_packet_out
  | Port_stats_request

text \<open>
  What a handler does to the outside: \<^verbatim>\<open>connection.send(msg)\<close> on the connection of
  a switch, and \<^verbatim>\<open>core.callLater(seconds, self._request_stats)\<close>.
\<close>

datatype effect = Send dpid ofp_message | CallLater nat

definition is_flow_mod :: "effect \<Rightarrow> bool" where
  "is_flow_mod e = (case e of Send _ (Flow_mod _) \<Rightarrow> True | _ \<Rightarrow> False)"

definition is_packet_out :: "effect \<Rightarrow> bool" where
  "is_packet_out e = (case e of Send _ (Packet_out _) \<Rightarrow> True | _ \<Rightarrow> False)"

text \<open>Set once in \<^verbatim>\<open>__init__\<close> of both components and never assigned again.\<close>

definition monitoring_interval :: nat where "monitoring_interval = 5"
definition congestion_threshold :: rat where "congestion_threshold = 7 / 10"

text \<open>One entry of \<^verbatim>\<open>event.stats\<close>.\<close>

record ofp_port_stats =
  port_no :: port
  rx_bytes :: int
  tx_bytes :: int

text \<open>
  The key \<^verbatim>\<open>f"{dpid}-{port}"\<close> of a port in the counter table: the switch string,
  a dash, and the decimal digits of the port number.
\<close>

fun str_nat :: "nat \<Rightarrow> string" where
  "str_nat n =
     (if n < 10 then [''0123456789'' ! n]
      else str_nat (n div 10) @ [''0123456789'' ! (n mod 10)])"

declare str_nat.simps [simp del]

definition port_key :: "dpid \<Rightarrow> port \<Rightarrow> string" where
  "port_key dpid port = dpid @ ''-'' @ str_nat port"

section \<open>SimpleLoadBalancer\<close>

record counter =
  prev_rx :: int
  prev_tx :: int
  prev_time :: rat
  utilization :: rat

record slb_state =
  mac_table :: "dpid \<rightharpoonup> (mac \<rightharpoonup> port)"
  flow_counters :: "string \<rightharpoonup> counter"
  congested_links :: "string set"

definition SLB_init :: slb_state where
  "SLB_init = \<lparr>mac_table = Map.empty, flow_counters = Map.empty, congested_links = {}\<rparr>"

definition SLB_request_stats_for_connection :: "dpid \<Rightarrow> effect list" where
  "SLB_request_stats_for_connection connection = [Send connection Port_stats_request]"

text \<open>
  \<^verbatim>\<open>_request_stats(connection=None)\<close>; \<open>connections\<close> stands for
  \<^verbatim>\<open>core.openflow._connections.values()\<close>, read only by the periodic call.
\<close>

definition SLB_request_stats :: "dpid option \<Rightarrow> dpid list \<Rightarrow> effect list" where
  "SLB_request_stats connection connections =
     (case connection of
        None \<Rightarrow> concat (map SLB_request_stats_for_connection connections)
      | Some c \<Rightarrow> SLB_request_stats_for_connection c)
     @ [CallLater monitoring_interval]"

definition SLB_handle_ConnectionUp ::
  "slb_state \<Rightarrow> dpid \<Rightarrow> dpid list \<Rightarrow> slb_state \<times> effect list" where
  "SLB_handle_ConnectionUp s dpid connections =
     (let s1 = s\<lparr>mac_table := (mac_table s)(dpid \<mapsto> Map.empty)\<rparr>;
          msg = ofp_flow_mod_new\<lparr>priority := 0\<rparr>;
          msg = msg\<lparr>actions := actions msg @ [ofp_action_output OFPP_CONTROLLER]\<rparr>
      in (s1, [Send dpid (Flow_mod msg)] @ SLB_request_stats (Some dpid) connections))"

definition SLB_install_flow :: "dpid \<Rightarrow> ethernet \<Rightarrow> port \<Rightarrow> port \<Rightarrow> effect list" where
  "SLB_install_flow connection packet in_p out_port =
     (let msg = ofp_flow_mod_new\<lparr>match := from_packet packet in_p\<rparr>;
          msg = msg\<lparr>actions := actions msg @ [ofp_action_output out_port]\<rparr>;
          msg = msg\<lparr>idle_timeout := 10\<rparr>;
          msg = msg\<lparr>hard_timeout := 30\<rparr>
      in [Send connection (Flow_mod msg)])"

definition SLB_send_packet :: "PacketIn \<Rightarrow> port \<Rightarrow> effect list" where
  "SLB_send_packet event out_port =
     [Send (ev_dpid event)
        (Packet_out \<lparr>data = Of_packet_in (ev_ofp event),
                     po_actions = [ofp_action_output out_port],
                     in_port = ev_port event\<rparr>)]"

definition SLB_flood_packet :: "PacketIn \<Rightarrow> effect list" where
  "SLB_flood_packet event =
     [Send (ev_dpid event)
        (Packet_out \<lparr>data = Of_packet_in (ev_ofp event),
                     po_actions = [ofp_action_output OFPP_FLOOD],
                     in_port = ev_port event\<rparr>)]"

definition SLB_handle_arp :: "PacketIn \<Rightarrow> ethernet \<Rightarrow> dpid \<Rightarrow> port \<Rightarrow> effect list" where
  "SLB_handle_arp event packet dpid in_p = SLB_flood_packet event"

text \<open>
  \<^verbatim>\<open>self.mac_table[dpid]\<close> raises \<^verbatim>\<open>KeyError\<close> when the switch has no table. The
  handlers raise before they change anything, so an error result stands for the
  unchanged state and no effect.
\<close>

definition SLB_handle_other_packet ::
  "slb_state \<Rightarrow> PacketIn \<Rightarrow> ethernet \<Rightarrow> dpid \<Rightarrow> port \<Rightarrow> error + effect list" where
  "SLB_handle_other_packet s event packet dpid in_p =
     (case mac_table s dpid of
        None \<Rightarrow> Inl KeyError
      | Some t \<Rightarrow>
          (case t (dst packet) of
             Some out_port \<Rightarrow>
               Inr (SLB_install_flow (ev_dpid event) packet in_p out_port
                    @ SLB_send_packet event out_port)
           | None \<Rightarrow> Inr (SLB_flood_packet event)))"

definition SLB_handle_PacketIn ::
  "slb_state \<Rightarrow> PacketIn \<Rightarrow> error + slb_state \<times> effect list" where
  "SLB_handle_PacketIn s event =
     (let packet = ev_parsed event in
      if \<not> parsed packet then Inr (s, [])
      else
        let dpid = ev_dpid event; in_p = ev_port event in
        case mac_table s dpid of
          None \<Rightarrow> Inl KeyError
        | Some t \<Rightarrow>
            let s1 = (if t (src packet) = None
                      then s\<lparr>mac_table := (mac_table s)(dpid \<mapsto> t(src packet \<mapsto> in_p))\<rparr>
                      else s)
            in if type packet = LLDP_TYPE \<or> type packet = IPV6_TYPE then Inr (s1, [])
               else if type packet = ARP_TYPE
               then Inr (s1, SLB_handle_arp event packet dpid in_p)
               else (case SLB_handle_other_packet s1 event packet dpid in_p of
                       Inl e \<Rightarrow> Inl e
                     | Inr effs \<Rightarrow> Inr (s1, effs)))"

text \<open>
  The log records of the statistics path; the log calls of the packet path change neither
  state nor commands and are left out.
\<close>

datatype slb_log =
    Util_info dpid port rat
  | Congestion_warning dpid port rat
  | Cleared_info dpid port



definition link_capacity :: rat where
  "link_capacity = 100 * 1024 * 1024 / 8"

text \<open>
  \<^verbatim>\<open>_update_link_stats\<close>; \<open>current_time\<close> is the value \<^verbatim>\<open>time.time()\<close> returns in
  this call.
\<close>

definition SLB_update_link_stats ::
  "slb_state \<Rightarrow> dpid \<Rightarrow> port \<Rightarrow> ofp_port_stats \<Rightarrow> rat \<Rightarrow> slb_state \<times> slb_log list" where
  "SLB_update_link_stats s dpid port stat current_time =
     (let key = port_key dpid port in
      case flow_counters s key of
        None \<Rightarrow>
          (s\<lparr>flow_counters := (flow_counters s)(key \<mapsto>
                \<lparr>prev_rx = rx_bytes stat, prev_tx = tx_bytes stat,
                 prev_time = current_time, utilization = 0\<rparr>)\<rparr>, [])
      | Some c \<Rightarrow>
          let time_diff = current_time - prev_time c in
          if time_diff > 0 then
            let rx_rate = of_int (rx_bytes stat - prev_rx c) / time_diff;
                tx_rate = of_int (tx_bytes stat - prev_tx c) / time_diff;
                u = (rx_rate + tx_rate) / link_capacity;
                s1 = s\<lparr>flow_counters := (flow_counters s)(key \<mapsto>
                       c\<lparr>prev_rx := rx_bytes stat, prev_tx := tx_bytes stat,
                         prev_time := current_time, utilization := u\<rparr>)\<rparr>;
                l1 = (if u > 5 / 100 then [Util_info dpid port (u * 100)] else [])
            in if u > congestion_threshold then
                 if key \<notin> congested_links s1
                 then (s1\<lparr>congested_links := insert key (congested_links s1)\<rparr>,
                       l1 @ [Congestion_warning dpid port (u * 100)])
                 else (s1, l1)
               else
                 if key \<in> congested_links s1
                 then (s1\<lparr>congested_links := congested_links s1 - {key}\<rparr>,
                       l1 @ [Cleared_info dpid port])
                 else (s1, l1)
          else (s, []))"

text \<open>
  \<^verbatim>\<open>_handle_PortStatsReceived\<close>: the loop over \<^verbatim>\<open>event.stats\<close>. Each entry comes
  with the clock value read while it is processed (unused for a skipped entry).
\<close>

fun SLB_handle_PortStatsReceived ::
  "slb_state \<Rightarrow> dpid \<Rightarrow> (ofp_port_stats \<times> rat) list \<Rightarrow> slb_state \<times> slb_log list" where
  "SLB_handle_PortStatsReceived s dpid [] = (s, [])"
| "SLB_handle_PortStatsReceived s dpid ((stat, now) # stats) =
     (if port_no stat \<ge> OFPP_MAX then SLB_handle_PortStatsReceived s dpid stats
      else
        let (s1, l1) = SLB_update_link_stats s dpid (port_no stat) stat now;
            (s2, l2) = SLB_handle_PortStatsReceived s1 dpid stats
        in (s2, l1 @ l2))"

section \<open>LoadBalancerController\<close>

record lbc_counter =
  c_prev_rx :: int
  c_prev_tx :: int
  current_rx :: int
  current_tx :: int

text \<open>
  \<^verbatim>\<open>switch_stats\<close> maps a switch to a dictionary that is created empty and never
  written, so only its keys are kept.
\<close>

record lbc_state =
  switch_stats :: "dpid set"
  lbc_flow_counters :: "string \<rightharpoonup> lbc_counter"
  mac_to_port :: "dpid \<rightharpoonup> (mac \<rightharpoonup> port)"

definition LBC_init :: lbc_state where
  "LBC_init = \<lparr>switch_stats = {}, lbc_flow_counters = Map.empty, mac_to_port = Map.empty\<rparr>"

definition LBC_request_stats_for_connection :: "dpid \<Rightarrow> effect list" where
  "LBC_request_stats_for_connection connection = [Send connection Port_stats_request]"

definition LBC_request_stats :: "dpid option \<Rightarrow> dpid list \<Rightarrow> effect list" where
  "LBC_request_stats event connections =
     (case event of
        None \<Rightarrow> concat (map LBC_request_stats_for_connection connections)
      | Some c \<Rightarrow> LBC_request_stats_for_connection c)
     @ [CallLater monitoring_interval]"

definition LBC_handle_ConnectionUp ::
  "lbc_state \<Rightarrow> dpid \<Rightarrow> dpid list \<Rightarrow> lbc_state \<times> effect list" where
  "LBC_handle_ConnectionUp s dpid connections =
     (s\<lparr>switch_stats := insert dpid (switch_stats s),
        mac_to_port := (mac_to_port s)(dpid \<mapsto> Map.empty)\<rparr>,
      LBC_request_stats (Some dpid) connections)"

definition LBC_send_packet ::
  "dpid \<Rightarrow> ofp_packet_in \<Rightarrow> port \<Rightarrow> ethernet \<Rightarrow> effect list" where
  "LBC_send_packet connection ofp out_port packet =
     [Send connection
        (Packet_out \<lparr>data = Raw (pi_data ofp),
                     po_actions = [ofp_action_output out_port],
                     in_port = pi_in_port ofp\<rparr>)]"

definition LBC_install_flow ::
  "dpid \<Rightarrow> ofp_packet_in \<Rightarrow> port \<Rightarrow> port \<Rightarrow> ethernet \<Rightarrow> effect list" where
  "LBC_install_flow connection ofp in_p out_port packet =
     (let msg = ofp_flow_mod_new\<lparr>match := from_packet packet in_p\<rparr>;
          msg = msg\<lparr>actions := actions msg @ [ofp_action_output out_port]\<rparr>;
          msg = msg\<lparr>idle_timeout := 10\<rparr>;
          msg = msg\<lparr>hard_timeout := 30\<rparr>
      in [Send connection (Flow_mod msg)]
         @ (if out_port \<noteq> OFPP_FLOOD
            then LBC_send_packet connection ofp out_port packet else []))"

definition LBC_handle_PacketIn ::
  "lbc_state \<Rightarrow> PacketIn \<Rightarrow> error + lbc_state \<times> effect list" where
  "LBC_handle_PacketIn s event =
     (let packet = ev_parsed event in
      if \<not> parsed packet then Inr (s, [])
      else
        let dpid = ev_dpid event; in_p = ev_port event in
        case mac_to_port s dpid of
          None \<Rightarrow> Inl KeyError
        | Some t \<Rightarrow>
            let t1 = t(src packet \<mapsto> in_p);
                s1 = s\<lparr>mac_to_port := (mac_to_port s)(dpid \<mapsto> t1)\<rparr>;
                out_port = (case t1 (dst packet) of Some p \<Rightarrow> p | None \<Rightarrow> OFPP_FLOOD)
            in Inr (s1, LBC_install_flow dpid (ev_ofp event) in_p out_port packet))"

datatype lbc_log =
    Usage_info dpid port rat rat
  | Potential_congestion dpid port rat

text \<open>The body of the loop of \<^verbatim>\<open>_handle_PortStatsReceived\<close> for a port that is not reserved.\<close>

definition LBC_port_stats ::
  "lbc_state \<Rightarrow> dpid \<Rightarrow> ofp_port_stats \<Rightarrow> lbc_state \<times> lbc_log list" where
  "LBC_port_stats s dpid stat =
     (let port = port_no stat;
          rx = rx_bytes stat;
          tx = tx_bytes stat;
          key = port_key dpid port;
          c1 = (case lbc_flow_counters s key of
                  None \<Rightarrow> \<lparr>c_prev_rx = rx, c_prev_tx = tx, current_rx = rx, current_tx = tx\<rparr>
                | Some c \<Rightarrow> c\<lparr>c_prev_rx := current_rx c, c_prev_tx := current_tx c,
                              current_rx := rx, current_tx := tx\<rparr>);
          s1 = s\<lparr>lbc_flow_counters := (lbc_flow_counters s)(key \<mapsto> c1)\<rparr>;
          time_interval = monitoring_interval;
          rx_usage = of_int (rx - c_prev_rx c1) / of_nat time_interval;
          tx_usage = of_int (tx - c_prev_tx c1) / of_nat time_interval;
          l1 = (if rx_usage > 1000 \<or> tx_usage > 1000
                then [Usage_info dpid port rx_usage tx_usage] else []);
          total_usage = rx_usage + tx_usage;
          l2 = (if total_usage > 1000000
                then [Potential_congestion dpid port total_usage] else [])
      in (s1, l1 @ l2))"

fun LBC_handle_PortStatsReceived ::
  "lbc_state \<Rightarrow> dpid \<Rightarrow> ofp_port_stats list \<Rightarrow> lbc_state \<times> lbc_log list" where
  "LBC_handle_PortStatsReceived s dpid [] = (s, [])"
| "LBC_handle_PortStatsReceived s dpid (stat # stats) =
     (if port_no stat \<ge> OFPP_MAX then LBC_handle_PortStatsReceived s dpid stats
      else
        let (s1, l1) = LBC_port_stats s dpid stat;
            (s2, l2) = LBC_handle_PortStatsReceived s1 dpid stats
        in (s2, l1 @ l2))"

section \<open>Definitions used to state the properties\<close>

text \<open>A parsed packet-in with the given switch, ingress port, addresses and EtherType.\<close>

definition example_packet_in :: "dpid \<Rightarrow> port \<Rightarrow> mac \<Rightarrow> mac \<Rightarrow> nat \<Rightarrow> PacketIn" where
  "example_packet_in d p a b ty =
     \<lparr>ev_dpid = d, ev_port = p,
      ev_parsed = \<lparr>parsed = True, src = a, dst = b, type = ty\<rparr>,
      ev_ofp = \<lparr>pi_data = [], pi_in_port = p\<rparr>\<rparr>"

text \<open>
  A sequence of packet-in events handled one after the other; the run stops at the first
  handler that raises.
\<close>

fun SLB_packets :: "slb_state \<Rightarrow> PacketIn list \<Rightarrow> error + slb_state" where
  "SLB_packets s [] = Inr s"
| "SLB_packets s (event # events) =
     (case SLB_handle_PacketIn s event of
        Inl e \<Rightarrow> Inl e
      | Inr (s1, _) \<Rightarrow> SLB_packets s1 events)"

fun LBC_packets :: "lbc_state \<Rightarrow> PacketIn list \<Rightarrow> error + lbc_state" where
  "LBC_packets s [] = Inr s"
| "LBC_packets s (event # events) =
     (case LBC_handle_PacketIn s event of
        Inl e \<Rightarrow> Inl e
      | Inr (s1, _) \<Rightarrow> LBC_packets s1 events)"

text \<open>The event is a parsed packet of switch \<open>d\<close> with source address \<open>a\<close>.\<close>

definition observes :: "dpid \<Rightarrow> mac \<Rightarrow> PacketIn \<Rightarrow> bool" where
  "observes d a event =
     (parsed (ev_parsed event) \<and> ev_dpid event = d \<and> src (ev_parsed event) = a)"

text \<open>
  The utilization as the specification words it: the two byte deltas, each divided by the
  time elapsed since the stored sample, summed and divided by the link capacity.
\<close>

definition spec_utilization :: "counter \<Rightarrow> ofp_port_stats \<Rightarrow> rat \<Rightarrow> rat" where
  "spec_utilization c stat now =
     (of_int (rx_bytes stat - prev_rx c) / (now - prev_time c)
      + of_int (tx_bytes stat - prev_tx c) / (now - prev_time c)) / link_capacity"

text \<open>A rate as the specification words it: a byte delta over the elapsed wall-clock time.\<close>

definition wall_clock_rate :: "int \<Rightarrow> rat \<Rightarrow> rat" where
  "wall_clock_rate delta elapsed = of_int delta / elapsed"




text \<open>
  The congested set and the counter table agree: a congested key has a counter entry, and
  a key with an entry is congested exactly when its stored utilization is above the
  threshold.
\<close>

definition SLB_inv :: "slb_state \<Rightarrow> bool" where
  "SLB_inv s =
     (congested_links s \<subseteq> dom (flow_counters s)
      \<and> (\<forall>key c. flow_counters s key = Some c \<longrightarrow>
            (key \<in> congested_links s \<longleftrightarrow> utilization c > congestion_threshold)))"

section \<open>Auxiliary lemmas\<close>

lemma str_nat_digits: "set (str_nat n) \<subseteq> set ''0123456789''"
proof (induction n rule: str_nat.induct)
  case (1 n)
  have d: "\<And>k. k < 10 \<Longrightarrow> ''0123456789'' ! k \<in> set ''0123456789''"
    by (rule nth_mem) simp
  show ?case
  proof (cases "n < 10")
    case True
    then show ?thesis using d[of n] by (subst str_nat.simps) simp
  next
    case False
    have "n mod 10 < 10" by simp
    then show ?thesis using False 1 d[of "n mod 10"]
      by (subst str_nat.simps) simp
  qed
qed

lemma dash_notin_str_nat: "CHR ''-'' \<notin> set (str_nat n)"
  using str_nat_digits[of n] by auto

lemma str_nat_nonempty: "str_nat n \<noteq> []"
  by (subst str_nat.simps) simp

lemma str_nat_length_one: "length (str_nat n) = Suc 0 \<longleftrightarrow> n < 10"
  using str_nat_nonempty[of "n div 10"] by (subst str_nat.simps) simp

lemma digit_inj:
  "i < 10 \<Longrightarrow> j < 10 \<Longrightarrow> ''0123456789'' ! i = ''0123456789'' ! j \<Longrightarrow> i = j"
  by (simp add: nth_eq_iff_index_eq)

lemma str_nat_inj: "str_nat n = str_nat m \<Longrightarrow> n = m"
proof (induction n arbitrary: m rule: str_nat.induct)
  case (1 n)
  show ?case
  proof (cases "n < 10")
    case True
    then have "length (str_nat m) = Suc 0"
      using "1.prems" str_nat_length_one[of n] by simp
    then have m: "m < 10" by (simp add: str_nat_length_one)
    have "str_nat n = [''0123456789'' ! n]" "str_nat m = [''0123456789'' ! m]"
      using True m by (subst str_nat.simps, simp)+
    then show ?thesis using "1.prems" True m digit_inj by simp
  next
    case False
    then have "length (str_nat m) \<noteq> Suc 0"
      using "1.prems" str_nat_length_one[of n] by simp
    then have m: "\<not> m < 10" by (simp add: str_nat_length_one)
    have n': "str_nat n = str_nat (n div 10) @ [''0123456789'' ! (n mod 10)]"
      using False by (subst str_nat.simps) simp
    have m': "str_nat m = str_nat (m div 10) @ [''0123456789'' ! (m mod 10)]"
      using m by (subst str_nat.simps) simp
    from "1.prems" n' m' have e: "str_nat (n div 10) = str_nat (m div 10)"
      and g: "''0123456789'' ! (n mod 10) = ''0123456789'' ! (m mod 10)"
      by simp_all
    have "n div 10 = m div 10" using "1.IH"[OF False e] .
    moreover have "n mod 10 = m mod 10" using g digit_inj[of "n mod 10" "m mod 10"] by simp
    ultimately show ?thesis by (metis div_mult_mod_eq)
  qed
qed

lemma split_at_last:
  assumes "xs @ c # ys = xs' @ c # ys'" "c \<notin> set ys" "c \<notin> set ys'"
  shows "xs = xs' \<and> ys = ys'"
  using assms
  by (auto simp: append_eq_append_conv2 append_eq_Cons_conv Cons_eq_append_conv)

lemma port_key_inj: "port_key d p = port_key d' p' \<Longrightarrow> d = d' \<and> p = p'"
  using split_at_last[of d "CHR ''-''" "str_nat p" d' "str_nat p'"]
    dash_notin_str_nat str_nat_inj
  by (auto simp: port_key_def)

lemma SLB_update_first:
  "flow_counters s (port_key d p) = None \<Longrightarrow>
   SLB_update_link_stats s d p stat now =
     (s\<lparr>flow_counters := (flow_counters s)(port_key d p \<mapsto>
          \<lparr>prev_rx = rx_bytes stat, prev_tx = tx_bytes stat,
           prev_time = now, utilization = 0\<rparr>)\<rparr>, [])"
  by (simp add: SLB_update_link_stats_def)

lemma SLB_update_stale:
  "flow_counters s (port_key d p) = Some c \<Longrightarrow> now \<le> prev_time c \<Longrightarrow>
   SLB_update_link_stats s d p stat now = (s, [])"
  by (simp add: SLB_update_link_stats_def)

lemma SLB_update_fresh:
  assumes "flow_counters s (port_key d p) = Some c" and "prev_time c < now"
  shows "SLB_update_link_stats s d p stat now =
     (s\<lparr>flow_counters := (flow_counters s)(port_key d p \<mapsto>
          \<lparr>prev_rx = rx_bytes stat, prev_tx = tx_bytes stat, prev_time = now,
           utilization = spec_utilization c stat now\<rparr>),
        congested_links :=
          (if spec_utilization c stat now > congestion_threshold
           then insert (port_key d p) (congested_links s)
           else congested_links s - {port_key d p})\<rparr>,
      (if spec_utilization c stat now > 5 / 100
       then [Util_info d p (spec_utilization c stat now * 100)] else [])
      @ (if spec_utilization c stat now > congestion_threshold
         then (if port_key d p \<notin> congested_links s
               then [Congestion_warning d p (spec_utilization c stat now * 100)] else [])
         else (if port_key d p \<in> congested_links s then [Cleared_info d p] else [])))"
  using assms
  by (cases c, cases s)
     (simp add: SLB_update_link_stats_def Let_def spec_utilization_def insert_absorb)

lemma SLB_inv_update:
  assumes "SLB_inv s"
  shows "SLB_inv (fst (SLB_update_link_stats s d p stat now))"
proof (cases "flow_counters s (port_key d p)")
  case None
  then have "port_key d p \<notin> congested_links s"
    using assms by (auto simp: SLB_inv_def)
  then show ?thesis using assms None
    by (auto simp: SLB_update_first SLB_inv_def congestion_threshold_def)
next
  case (Some c)
  show ?thesis
  proof (cases "prev_time c < now")
    case True
    then show ?thesis using assms Some
      by (auto simp: SLB_update_fresh SLB_inv_def)
  next
    case False
    then show ?thesis using assms Some by (simp add: SLB_update_stale)
  qed
qed

lemma SLB_inv_stats:
  "SLB_inv s \<Longrightarrow> SLB_inv (fst (SLB_handle_PortStatsReceived s d stats))"
proof (induction stats arbitrary: s)
  case Nil
  then show ?case by simp
next
  case (Cons x stats)
  obtain stat now where x: "x = (stat, now)" by (cases x)
  show ?case
  proof (cases "port_no stat \<ge> OFPP_MAX")
    case True
    then show ?thesis using Cons x by simp
  next
    case False
    have "SLB_inv (fst (SLB_update_link_stats s d (port_no stat) stat now))"
      using Cons.prems by (rule SLB_inv_update)
    then have "SLB_inv (fst (SLB_handle_PortStatsReceived
        (fst (SLB_update_link_stats s d (port_no stat) stat now)) d stats))"
      by (rule Cons.IH)
    then show ?thesis using False x
      by (simp add: split_beta Let_def)
  qed
qed

lemma SLB_PacketIn_stats_unchanged:
  "SLB_handle_PacketIn s e = Inr (s', effs) \<Longrightarrow>
   flow_counters s' = flow_counters s \<and> congested_links s' = congested_links s"
  by (auto simp: SLB_handle_PacketIn_def Let_def split: if_splits option.splits sum.splits)





lemma SLB_step_table:
  assumes "SLB_handle_PacketIn s e = Inr (s1, effs)" and "mac_table s d = Some t"
  shows "\<exists>t1. mac_table s1 d = Some t1
           \<and> t1 a = (if observes d a e \<and> t a = None then Some (ev_port e) else t a)"
  using assms
  by (auto simp: SLB_handle_PacketIn_def Let_def observes_def
      split: if_splits option.splits sum.splits)

lemma LBC_step_table:
  assumes "LBC_handle_PacketIn s e = Inr (s1, effs)" and "mac_to_port s d = Some t"
  shows "\<exists>t1. mac_to_port s1 d = Some t1
           \<and> t1 a = (if observes d a e then Some (ev_port e) else t a)"
  using assms
  by (auto simp: LBC_handle_PacketIn_def Let_def observes_def
      split: if_splits option.splits sum.splits)

lemma SLB_first_write_wins:
  "SLB_packets s events = Inr s' \<Longrightarrow> mac_table s d = Some t \<Longrightarrow>
   \<exists>t'. mac_table s' d = Some t'
      \<and> t' a = (case t a of
                  Some p \<Rightarrow> Some p
                | None \<Rightarrow> map_option ev_port (find (observes d a) events))"
proof (induction events arbitrary: s t)
  case Nil
  then show ?case by (auto split: option.splits)
next
  case (Cons e events)
  from Cons.prems(1) obtain s1 effs where
    h: "SLB_handle_PacketIn s e = Inr (s1, effs)" and r: "SLB_packets s1 events = Inr s'"
    by (auto split: sum.splits)
  from SLB_step_table[OF h Cons.prems(2), of a] obtain t1 where
    t1: "mac_table s1 d = Some t1"
    and v: "t1 a = (if observes d a e \<and> t a = None then Some (ev_port e) else t a)"
    by blast
  from Cons.IH[OF r t1] obtain t' where
    "mac_table s' d = Some t'"
    "t' a = (case t1 a of Some p \<Rightarrow> Some p
             | None \<Rightarrow> map_option ev_port (find (observes d a) events))"
    by blast
  then show ?case using v by (auto split: option.splits)
qed

lemma find_snoc:
  "find P (xs @ [x]) = (case find P xs of Some y \<Rightarrow> Some y | None \<Rightarrow> if P x then Some x else None)"
  by (induction xs) auto

lemma LBC_latest_write_wins:
  "LBC_packets s events = Inr s' \<Longrightarrow> mac_to_port s d = Some t \<Longrightarrow>
   \<exists>t'. mac_to_port s' d = Some t'
      \<and> t' a = (case find (observes d a) (rev events) of
                  Some e \<Rightarrow> Some (ev_port e)
                | None \<Rightarrow> t a)"
proof (induction events arbitrary: s t)
  case Nil
  then show ?case by auto
next
  case (Cons e events)
  from Cons.prems(1) obtain s1 effs where
    h: "LBC_handle_PacketIn s e = Inr (s1, effs)" and r: "LBC_packets s1 events = Inr s'"
    by (auto split: sum.splits)
  from LBC_step_table[OF h Cons.prems(2), of a] obtain t1 where
    t1: "mac_to_port s1 d = Some t1"
    and v: "t1 a = (if observes d a e then Some (ev_port e) else t a)"
    by blast
  from Cons.IH[OF r t1] obtain t' where
    "mac_to_port s' d = Some t'"
    "t' a = (case find (observes d a) (rev events) of
               Some e \<Rightarrow> Some (ev_port e) | None \<Rightarrow> t1 a)"
    by blast
  then show ?case using v by (auto simp: find_snoc split: option.splits)
qed

lemma SLB_PacketIn_total:
  "mac_table s (ev_dpid event) = Some t \<Longrightarrow> \<exists>s' effs. SLB_handle_PacketIn s event = Inr (s', effs)"
  by (auto simp add: SLB_handle_PacketIn_def Let_def SLB_handle_other_packet_def
      split: option.splits)

lemma SLB_flood_step:
  assumes "parsed (ev_parsed event)" and "mac_table s (ev_dpid event) = Some t"
    and "type (ev_parsed event) = ARP_TYPE
         \<or> type (ev_parsed event) \<noteq> LLDP_TYPE \<and> type (ev_parsed event) \<noteq> IPV6_TYPE
           \<and> (if t (src (ev_parsed event)) = None
               then t(src (ev_parsed event) \<mapsto> ev_port event) else t)
                (dst (ev_parsed event)) = None"
  shows "\<exists>s'. SLB_handle_PacketIn s event = Inr (s',
          [Send (ev_dpid event)
             (Packet_out \<lparr>data = Of_packet_in (ev_ofp event),
                          po_actions = [ofp_action_output OFPP_FLOOD],
                          in_port = ev_port event\<rparr>)])"
  using assms
  by (auto simp add: SLB_handle_PacketIn_def Let_def
      SLB_handle_other_packet_def SLB_handle_arp_def SLB_flood_packet_def
      ARP_TYPE_def LLDP_TYPE_def IPV6_TYPE_def split: if_splits)

lemma SLB_flood_again:
  assumes "mac_table s (ev_dpid event) = Some t"
    and "parsed (ev_parsed event2)" and "ev_dpid event2 = ev_dpid event"
    and "type (ev_parsed event2) \<noteq> LLDP_TYPE" and "type (ev_parsed event2) \<noteq> IPV6_TYPE"
    and "t (dst (ev_parsed event2)) = None"
    and "dst (ev_parsed event2) \<noteq> src (ev_parsed event)"
    and "dst (ev_parsed event2) \<noteq> src (ev_parsed event2)"
  shows "\<exists>s1 effs s2. SLB_handle_PacketIn s event = Inr (s1, effs)
          \<and> SLB_handle_PacketIn s1 event2 = Inr (s2,
              [Send (ev_dpid event2)
                 (Packet_out \<lparr>data = Of_packet_in (ev_ofp event2),
                              po_actions = [ofp_action_output OFPP_FLOOD],
                              in_port = ev_port event2\<rparr>)])"
proof -
  from SLB_PacketIn_total[OF assms(1)] obtain s1 effs where
    h: "SLB_handle_PacketIn s event = Inr (s1, effs)" by blast
  from SLB_step_table[OF h assms(1), of "dst (ev_parsed event2)"] obtain t1 where
    t1: "mac_table s1 (ev_dpid event2) = Some t1" and n: "t1 (dst (ev_parsed event2)) = None"
    using assms(3,6,7) by (auto simp: observes_def)
  have "(if t1 (src (ev_parsed event2)) = None
         then t1(src (ev_parsed event2) \<mapsto> ev_port event2) else t1)
          (dst (ev_parsed event2)) = None"
    using n assms(8) by simp
  with SLB_flood_step[OF assms(2) t1] assms(4,5) obtain s2 where
    "SLB_handle_PacketIn s1 event2 = Inr (s2,
              [Send (ev_dpid event2)
                 (Packet_out \<lparr>data = Of_packet_in (ev_ofp event2),
                              po_actions = [ofp_action_output OFPP_FLOOD],
                              in_port = ev_port event2\<rparr>)])"
    by blast
  with h show ?thesis by blast
qed

lemma LBC_flood_step:
  assumes "parsed (ev_parsed event)" and "mac_to_port u (ev_dpid event) = Some t"
    and "(t(src (ev_parsed event) \<mapsto> ev_port event)) (dst (ev_parsed event)) = None"
  shows "\<exists>u'. LBC_handle_PacketIn u event = Inr (u',
          [Send (ev_dpid event)
             (Flow_mod \<lparr>match = from_packet (ev_parsed event) (ev_port event),
                        actions = [ofp_action_output OFPP_FLOOD],
                        priority = OFP_DEFAULT_PRIORITY,
                        idle_timeout = 10, hard_timeout = 30\<rparr>)])"
  using assms
  by (auto simp add: LBC_handle_PacketIn_def Let_def
      LBC_install_flow_def ofp_flow_mod_new_def split: if_splits)

lemma example_key: "port_key ''00-00-00-00-00-01'' 3 = ''00-00-00-00-00-01-3''"
  by (simp add: port_key_def str_nat.simps)

section \<open>The claims\<close>

text \<open>
  C1, as amended. Let a sequence of packet-in events be handled without an error, and let
  the switch \<open>d\<close> have a learning table at the start. In
  \<^verbatim>\<open>LoadBalancerController\<close> every parsed packet writes its source address to its
  ingress port, so afterwards an address maps to the port of the last packet of \<open>d\<close>
  that carried it as source, and to its old entry if there was no such packet (latest
  write wins). In \<^verbatim>\<open>SimpleLoadBalancer\<close> the source is written only when the switch's
  table has no entry for it: an address that had an entry keeps it, and an address that
  had none maps to the port of the first packet of \<open>d\<close> that carried it as source
  (first write wins).
\<close>

theorem C1_learning_table_update:
  "(LBC_packets u events = Inr u' \<and> mac_to_port u d = Some t \<longrightarrow>
      (\<exists>t'. mac_to_port u' d = Some t'
         \<and> t' a = (case find (observes d a) (rev events) of
                     Some e \<Rightarrow> Some (ev_port e)
                   | None \<Rightarrow> t a)))
   \<and> (SLB_packets s events = Inr s' \<and> mac_table s d = Some t \<longrightarrow>
      (\<exists>t'. mac_table s' d = Some t'
         \<and> t' a = (case t a of
                     Some p \<Rightarrow> Some p
                   | None \<Rightarrow> map_option ev_port (find (observes d a) events))))"
  using LBC_latest_write_wins[of u events u' d t a] SLB_first_write_wins[of s events s' d t a]
  by blast

theorem C1_learning_table_update_witness:
  "LBC_packets
     \<lparr>switch_stats = {''00-00-00-00-00-01''}, lbc_flow_counters = Map.empty,
      mac_to_port = [''00-00-00-00-00-01'' \<mapsto> Map.empty]\<rparr>
     [example_packet_in ''00-00-00-00-00-01'' 1 0xaa 0xbb 0x0800,
      example_packet_in ''00-00-00-00-00-01'' 2 0xaa 0xbb 0x0800]
   = Inr \<lparr>switch_stats = {''00-00-00-00-00-01''}, lbc_flow_counters = Map.empty,
          mac_to_port = [''00-00-00-00-00-01'' \<mapsto> [0xaa \<mapsto> 2]]\<rparr>
   \<and> (\<exists>t'. mac_to_port
           \<lparr>switch_stats = {''00-00-00-00-00-01''}, lbc_flow_counters = Map.empty,
            mac_to_port = [''00-00-00-00-00-01'' \<mapsto> [0xaa \<mapsto> 2]]\<rparr>
           ''00-00-00-00-00-01'' = Some t' \<and> t' 0xaa = Some 2)
   \<and> SLB_packets
       \<lparr>mac_table = [''00-00-00-00-00-01'' \<mapsto> Map.empty],
        flow_counters = Map.empty, congested_links = {}\<rparr>
       [example_packet_in ''00-00-00-00-00-01'' 1 0xaa 0xbb 0x0800,
        example_packet_in ''00-00-00-00-00-01'' 2 0xaa 0xbb 0x0800]
     = Inr \<lparr>mac_table = [''00-00-00-00-00-01'' \<mapsto> [0xaa \<mapsto> 1]],
            flow_counters = Map.empty, congested_links = {}\<rparr>
   \<and> (\<exists>t'. mac_table
           \<lparr>mac_table = [''00-00-00-00-00-01'' \<mapsto> [0xaa \<mapsto> 1]],
            flow_counters = Map.empty, congested_links = {}\<rparr>
           ''00-00-00-00-00-01'' = Some t' \<and> t' 0xaa = Some 1)"
proof -
  let ?d = "''00-00-00-00-00-01''"
  let ?events = "[example_packet_in ?d 1 0xaa 0xbb 0x0800,
                  example_packet_in ?d 2 0xaa 0xbb 0x0800]"
  let ?u = "\<lparr>switch_stats = {?d}, lbc_flow_counters = Map.empty,
             mac_to_port = [?d \<mapsto> Map.empty]\<rparr>"
  let ?u' = "\<lparr>switch_stats = {?d}, lbc_flow_counters = Map.empty,
              mac_to_port = [?d \<mapsto> [0xaa \<mapsto> 2]]\<rparr>"
  let ?s = "\<lparr>mac_table = [?d \<mapsto> Map.empty],
             flow_counters = Map.empty, congested_links = {}\<rparr>"
  let ?s' = "\<lparr>mac_table = [?d \<mapsto> [0xaa \<mapsto> 1]],
              flow_counters = Map.empty, congested_links = {}\<rparr>"
  have l: "LBC_packets ?u ?events = Inr ?u'"
    by (simp add: LBC_handle_PacketIn_def Let_def example_packet_in_def)
  have r: "SLB_packets ?s ?events = Inr ?s'"
    by (simp add: SLB_handle_PacketIn_def SLB_handle_other_packet_def Let_def
        example_packet_in_def LLDP_TYPE_def IPV6_TYPE_def ARP_TYPE_def)
  show ?thesis
    using C1_learning_table_update[of ?u ?events ?u' ?d Map.empty "0xaa" ?s ?s'] l r
    by (simp add: observes_def example_packet_in_def)
qed

text \<open>
  The claim as written fails for \<^verbatim>\<open>SimpleLoadBalancer\<close>: after a connection-up, a
  packet from address \<open>aa\<close> on port 1 and then a packet from \<open>aa\<close> on port 2, the
  table still maps \<open>aa\<close> to port 1, not to the most recently observed port 2.
\<close>

theorem C1_counterexample:
  "SLB_packets (fst (SLB_handle_ConnectionUp SLB_init ''00-00-00-00-00-01'' []))
     [example_packet_in ''00-00-00-00-00-01'' 1 0xaa 0xbb 0x0800,
      example_packet_in ''00-00-00-00-00-01'' 2 0xaa 0xbb 0x0800]
   = Inr \<lparr>mac_table = [''00-00-00-00-00-01'' \<mapsto> [0xaa \<mapsto> 1]],
          flow_counters = Map.empty, congested_links = {}\<rparr>
   \<and> [0xaa \<mapsto> 1] (0xaa :: mac)
       \<noteq> Some (ev_port (example_packet_in ''00-00-00-00-00-01'' 2 0xaa 0xbb 0x0800))"
  by (simp add: SLB_handle_PacketIn_def SLB_handle_other_packet_def Let_def
      SLB_handle_ConnectionUp_def SLB_init_def
      example_packet_in_def LLDP_TYPE_def IPV6_TYPE_def ARP_TYPE_def)

text \<open>
  C2, as amended. A parsed packet-in of a switch that has no learning table raises
  \<^verbatim>\<open>KeyError\<close> in both components: no table is created implicitly, and the
  state is left as it was. A packet-in that is not parsed, or whose switch has a table,
  is handled without an error. The table of a switch is created, empty, by the
  connection-up handler.
\<close>

theorem C2_packet_in_unknown_switch:
  "(parsed (ev_parsed event) \<and> mac_table s (ev_dpid event) = None
      \<longrightarrow> SLB_handle_PacketIn s event = Inl KeyError)
   \<and> (parsed (ev_parsed event) \<and> mac_to_port u (ev_dpid event) = None
      \<longrightarrow> LBC_handle_PacketIn u event = Inl KeyError)
   \<and> (\<not> parsed (ev_parsed event) \<or> mac_table s (ev_dpid event) \<noteq> None
      \<longrightarrow> (\<exists>s' effs. SLB_handle_PacketIn s event = Inr (s', effs)))
   \<and> (\<not> parsed (ev_parsed event) \<or> mac_to_port u (ev_dpid event) \<noteq> None
      \<longrightarrow> (\<exists>u' effs. LBC_handle_PacketIn u event = Inr (u', effs)))
   \<and> mac_table (fst (SLB_handle_ConnectionUp s d connections)) d = Some Map.empty
   \<and> mac_to_port (fst (LBC_handle_ConnectionUp u d connections)) d = Some Map.empty"
  by (auto simp add: SLB_handle_PacketIn_def LBC_handle_PacketIn_def Let_def
      SLB_handle_other_packet_def SLB_handle_ConnectionUp_def LBC_handle_ConnectionUp_def
      split: option.splits)

theorem C2_packet_in_unknown_switch_witness:
  "SLB_handle_PacketIn SLB_init
       (example_packet_in ''00-00-00-00-00-01'' 1 0xaa 0xbb 0x0800) = Inl KeyError
   \<and> LBC_handle_PacketIn LBC_init
       (example_packet_in ''00-00-00-00-00-01'' 1 0xaa 0xbb 0x0800) = Inl KeyError
   \<and> (\<exists>s' effs. SLB_handle_PacketIn
         (fst (SLB_handle_ConnectionUp SLB_init ''00-00-00-00-00-01'' []))
         (example_packet_in ''00-00-00-00-00-01'' 1 0xaa 0xbb 0x0800) = Inr (s', effs))
   \<and> (\<exists>u' effs. LBC_handle_PacketIn
         (fst (LBC_handle_ConnectionUp LBC_init ''00-00-00-00-00-01'' []))
         (example_packet_in ''00-00-00-00-00-01'' 1 0xaa 0xbb 0x0800) = Inr (u', effs))"
  using C2_packet_in_unknown_switch
          [of "example_packet_in ''00-00-00-00-00-01'' 1 0xaa 0xbb 0x0800"
              SLB_init LBC_init]
        C2_packet_in_unknown_switch
          [of "example_packet_in ''00-00-00-00-00-01'' 1 0xaa 0xbb 0x0800"
              "fst (SLB_handle_ConnectionUp SLB_init ''00-00-00-00-00-01'' [])"
              "fst (LBC_handle_ConnectionUp LBC_init ''00-00-00-00-00-01'' [])"]
  by (simp add: example_packet_in_def SLB_init_def LBC_init_def
      SLB_handle_ConnectionUp_def LBC_handle_ConnectionUp_def Let_def)

text \<open>
  The claim as written fails: with no connection-up processed, the first parsed packet-in
  of a switch raises \<^verbatim>\<open>KeyError\<close> in either component.
\<close>

theorem C2_counterexample:
  "SLB_handle_PacketIn SLB_init
       (example_packet_in ''00-00-00-00-00-01'' 1 0xaa 0xbb 0x0800) = Inl KeyError
   \<and> LBC_handle_PacketIn LBC_init
       (example_packet_in ''00-00-00-00-00-01'' 1 0xaa 0xbb 0x0800) = Inl KeyError"
  by (simp add: SLB_handle_PacketIn_def LBC_handle_PacketIn_def SLB_init_def LBC_init_def
      example_packet_in_def)

text \<open>
  C3. For a parsed packet-in of a switch that has a learning table, in
  \<^verbatim>\<open>SimpleLoadBalancer\<close>: an ARP packet is answered by the flood packet-out and nothing
  else, whatever the table holds (the table \<open>t\<close> is arbitrary, so the destination may
  be learned or not); an LLDP or IPv6 packet is answered by no command at all.
\<close>

theorem C3_arp_floods_lldp_ipv6_dropped:
  assumes "parsed (ev_parsed event)" and "mac_table s (ev_dpid event) = Some t"
  shows "(type (ev_parsed event) = ARP_TYPE \<longrightarrow>
            (\<exists>s'. SLB_handle_PacketIn s event = Inr (s', SLB_flood_packet event))
            \<and> SLB_flood_packet event =
                [Send (ev_dpid event)
                   (Packet_out \<lparr>data = Of_packet_in (ev_ofp event),
                                po_actions = [ofp_action_output OFPP_FLOOD],
                                in_port = ev_port event\<rparr>)])
       \<and> (type (ev_parsed event) = LLDP_TYPE \<or> type (ev_parsed event) = IPV6_TYPE \<longrightarrow>
            (\<exists>s'. SLB_handle_PacketIn s event = Inr (s', [])))"
  using assms
  by (simp add: SLB_handle_PacketIn_def Let_def SLB_handle_arp_def SLB_flood_packet_def
      ARP_TYPE_def LLDP_TYPE_def IPV6_TYPE_def)

theorem C3_arp_floods_lldp_ipv6_dropped_witness:
  "(\<exists>s'. SLB_handle_PacketIn
       \<lparr>mac_table = [''00-00-00-00-00-01'' \<mapsto> [0xbb \<mapsto> 2]],
        flow_counters = Map.empty, congested_links = {}\<rparr>
       (example_packet_in ''00-00-00-00-00-01'' 1 0xaa 0xbb ARP_TYPE)
     = Inr (s', [Send ''00-00-00-00-00-01''
                   (Packet_out \<lparr>data = Of_packet_in \<lparr>pi_data = [], pi_in_port = 1\<rparr>,
                                po_actions = [ofp_action_output OFPP_FLOOD],
                                in_port = 1\<rparr>)]))
   \<and> (\<exists>s'. SLB_handle_PacketIn
       \<lparr>mac_table = [''00-00-00-00-00-01'' \<mapsto> [0xbb \<mapsto> 2]],
        flow_counters = Map.empty, congested_links = {}\<rparr>
       (example_packet_in ''00-00-00-00-00-01'' 1 0xaa 0xbb LLDP_TYPE) = Inr (s', []))
   \<and> (\<exists>s'. SLB_handle_PacketIn
       \<lparr>mac_table = [''00-00-00-00-00-01'' \<mapsto> [0xbb \<mapsto> 2]],
        flow_counters = Map.empty, congested_links = {}\<rparr>
       (example_packet_in ''00-00-00-00-00-01'' 1 0xaa 0xbb IPV6_TYPE) = Inr (s', []))"
  using C3_arp_floods_lldp_ipv6_dropped
          [of "example_packet_in ''00-00-00-00-00-01'' 1 0xaa 0xbb ARP_TYPE"
              "\<lparr>mac_table = [''00-00-00-00-00-01'' \<mapsto> [0xbb \<mapsto> 2]],
                flow_counters = Map.empty, congested_links = {}\<rparr>" "[0xbb \<mapsto> 2]"]
        C3_arp_floods_lldp_ipv6_dropped
          [of "example_packet_in ''00-00-00-00-00-01'' 1 0xaa 0xbb LLDP_TYPE"
              "\<lparr>mac_table = [''00-00-00-00-00-01'' \<mapsto> [0xbb \<mapsto> 2]],
                flow_counters = Map.empty, congested_links = {}\<rparr>" "[0xbb \<mapsto> 2]"]
        C3_arp_floods_lldp_ipv6_dropped
          [of "example_packet_in ''00-00-00-00-00-01'' 1 0xaa 0xbb IPV6_TYPE"
              "\<lparr>mac_table = [''00-00-00-00-00-01'' \<mapsto> [0xbb \<mapsto> 2]],
                flow_counters = Map.empty, congested_links = {}\<rparr>" "[0xbb \<mapsto> 2]"]
  by (simp add: example_packet_in_def SLB_flood_packet_def
      ARP_TYPE_def LLDP_TYPE_def IPV6_TYPE_def)

text \<open>
  C4, as amended. In \<^verbatim>\<open>SimpleLoadBalancer\<close> a parsed packet-in that is flooded (an ARP
  packet, or a packet that is neither LLDP nor IPv6 and whose destination is not in the
  table once the source is learned) is answered by one packet-out with the flood action
  and by no flow rule. Handling a packet changes the table at its source address only, so
  a later packet to a destination that is still not learned is flooded again. In
  \<^verbatim>\<open>LoadBalancerController\<close> a parsed packet-in whose destination is not in the table
  is answered by one flow rule with the flood action, idle timeout 10 and hard timeout 30,
  and by no packet-out.
\<close>

theorem C4_flood_commands:
  "(parsed (ev_parsed event) \<and> mac_table s (ev_dpid event) = Some t
     \<and> (type (ev_parsed event) = ARP_TYPE
        \<or> type (ev_parsed event) \<noteq> LLDP_TYPE \<and> type (ev_parsed event) \<noteq> IPV6_TYPE
          \<and> (if t (src (ev_parsed event)) = None
              then t(src (ev_parsed event) \<mapsto> ev_port event) else t)
               (dst (ev_parsed event)) = None)
    \<longrightarrow> (\<exists>s'. SLB_handle_PacketIn s event = Inr (s',
          [Send (ev_dpid event)
             (Packet_out \<lparr>data = Of_packet_in (ev_ofp event),
                          po_actions = [ofp_action_output OFPP_FLOOD],
                          in_port = ev_port event\<rparr>)])))
   \<and> (mac_table s (ev_dpid event) = Some t
     \<and> parsed (ev_parsed event2) \<and> ev_dpid event2 = ev_dpid event
     \<and> type (ev_parsed event2) \<noteq> LLDP_TYPE \<and> type (ev_parsed event2) \<noteq> IPV6_TYPE
     \<and> t (dst (ev_parsed event2)) = None
     \<and> dst (ev_parsed event2) \<noteq> src (ev_parsed event)
     \<and> dst (ev_parsed event2) \<noteq> src (ev_parsed event2)
    \<longrightarrow> (\<exists>s1 effs s2. SLB_handle_PacketIn s event = Inr (s1, effs)
          \<and> SLB_handle_PacketIn s1 event2 = Inr (s2,
              [Send (ev_dpid event2)
                 (Packet_out \<lparr>data = Of_packet_in (ev_ofp event2),
                              po_actions = [ofp_action_output OFPP_FLOOD],
                              in_port = ev_port event2\<rparr>)])))
   \<and> (parsed (ev_parsed event) \<and> mac_to_port u (ev_dpid event) = Some t
     \<and> (t(src (ev_parsed event) \<mapsto> ev_port event)) (dst (ev_parsed event)) = None
    \<longrightarrow> (\<exists>u'. LBC_handle_PacketIn u event = Inr (u',
          [Send (ev_dpid event)
             (Flow_mod \<lparr>match = from_packet (ev_parsed event) (ev_port event),
                        actions = [ofp_action_output OFPP_FLOOD],
                        priority = OFP_DEFAULT_PRIORITY,
                        idle_timeout = 10, hard_timeout = 30\<rparr>)])))"
  using SLB_flood_step[of event s t] SLB_flood_again[of s event t event2]
    LBC_flood_step[of event u t]
  by blast

theorem C4_flood_commands_witness:
  "(\<exists>s'. SLB_handle_PacketIn
       \<lparr>mac_table = [''00-00-00-00-00-01'' \<mapsto> Map.empty],
        flow_counters = Map.empty, congested_links = {}\<rparr>
       (example_packet_in ''00-00-00-00-00-01'' 1 0xaa 0xbb 0x0800)
     = Inr (s',
          [Send ''00-00-00-00-00-01''
             (Packet_out \<lparr>data = Of_packet_in \<lparr>pi_data = [], pi_in_port = 1\<rparr>,
                          po_actions = [ofp_action_output OFPP_FLOOD], in_port = 1\<rparr>)]))
   \<and> (\<exists>s1 effs s2. SLB_handle_PacketIn
       \<lparr>mac_table = [''00-00-00-00-00-01'' \<mapsto> Map.empty],
        flow_counters = Map.empty, congested_links = {}\<rparr>
       (example_packet_in ''00-00-00-00-00-01'' 1 0xaa 0xbb 0x0800) = Inr (s1, effs)
      \<and> SLB_handle_PacketIn s1
          (example_packet_in ''00-00-00-00-00-01'' 3 0xcc 0xbb 0x0800)
        = Inr (s2,
          [Send ''00-00-00-00-00-01''
             (Packet_out \<lparr>data = Of_packet_in \<lparr>pi_data = [], pi_in_port = 3\<rparr>,
                          po_actions = [ofp_action_output OFPP_FLOOD], in_port = 3\<rparr>)]))
   \<and> (\<exists>u'. LBC_handle_PacketIn
       \<lparr>switch_stats = {''00-00-00-00-00-01''}, lbc_flow_counters = Map.empty,
        mac_to_port = [''00-00-00-00-00-01'' \<mapsto> Map.empty]\<rparr>
       (example_packet_in ''00-00-00-00-00-01'' 1 0xaa 0xbb 0x0800)
     = Inr (u',
          [Send ''00-00-00-00-00-01''
             (Flow_mod \<lparr>match = from_packet
                           \<lparr>parsed = True, src = 0xaa, dst = 0xbb, type = 0x0800\<rparr> 1,
                        actions = [ofp_action_output OFPP_FLOOD],
                        priority = OFP_DEFAULT_PRIORITY,
                        idle_timeout = 10, hard_timeout = 30\<rparr>)]))"
  using C4_flood_commands
          [of "example_packet_in ''00-00-00-00-00-01'' 1 0xaa 0xbb 0x0800"
              "\<lparr>mac_table = [''00-00-00-00-00-01'' \<mapsto> Map.empty],
                flow_counters = Map.empty, congested_links = {}\<rparr>"
              Map.empty
              "example_packet_in ''00-00-00-00-00-01'' 3 0xcc 0xbb 0x0800"
              "\<lparr>switch_stats = {''00-00-00-00-00-01''}, lbc_flow_counters = Map.empty,
                mac_to_port = [''00-00-00-00-00-01'' \<mapsto> Map.empty]\<rparr>"]
  by (simp add: example_packet_in_def LLDP_TYPE_def IPV6_TYPE_def ARP_TYPE_def)

text \<open>
  The claim as written fails for \<^verbatim>\<open>LoadBalancerController\<close>: a packet to an unknown
  destination installs a flow rule with the flood action and sends no packet-out.
\<close>

theorem C4_counterexample:
  "LBC_handle_PacketIn
     \<lparr>switch_stats = {''00-00-00-00-00-01''}, lbc_flow_counters = Map.empty,
      mac_to_port = [''00-00-00-00-00-01'' \<mapsto> Map.empty]\<rparr>
     (example_packet_in ''00-00-00-00-00-01'' 1 0xaa 0xbb 0x0800)
   = Inr (\<lparr>switch_stats = {''00-00-00-00-00-01''}, lbc_flow_counters = Map.empty,
           mac_to_port = [''00-00-00-00-00-01'' \<mapsto> [0xaa \<mapsto> 1]]\<rparr>,
          [Send ''00-00-00-00-00-01''
             (Flow_mod \<lparr>match = from_packet
                           \<lparr>parsed = True, src = 0xaa, dst = 0xbb, type = 0x0800\<rparr> 1,
                        actions = [ofp_action_output OFPP_FLOOD],
                        priority = OFP_DEFAULT_PRIORITY,
                        idle_timeout = 10, hard_timeout = 30\<rparr>)])"
  by (simp add: LBC_handle_PacketIn_def Let_def example_packet_in_def
      LBC_install_flow_def ofp_flow_mod_new_def)



text \<open>
  C6. The first sample of a port, that is, a sample whose key has no entry in the counter
  table (two pairs of switch and port never share a key), is stored as the baseline and
  nothing else happens. In
  \<^verbatim>\<open>SimpleLoadBalancer\<close> the entry holds the sample's byte counts, the clock value and
  utilization 0; the congested set and the learning tables are unchanged and no log
  record (so no utilization report and no congestion transition) is emitted. In
  \<^verbatim>\<open>LoadBalancerController\<close> the entry holds the sample's byte counts as both previous
  and current values, and no log record is emitted.
\<close>

theorem C6_first_sample_is_baseline:
  "(flow_counters s (port_key d p) = None \<longrightarrow>
      SLB_update_link_stats s d p stat now =
        (s\<lparr>flow_counters := (flow_counters s)(port_key d p \<mapsto>
             \<lparr>prev_rx = rx_bytes stat, prev_tx = tx_bytes stat,
              prev_time = now, utilization = 0\<rparr>)\<rparr>, [])
      \<and> congested_links (fst (SLB_update_link_stats s d p stat now)) = congested_links s
      \<and> snd (SLB_update_link_stats s d p stat now) = [])
   \<and> (lbc_flow_counters u (port_key d (port_no stat)) = None \<longrightarrow>
      LBC_port_stats u d stat =
        (u\<lparr>lbc_flow_counters := (lbc_flow_counters u)(port_key d (port_no stat) \<mapsto>
             \<lparr>c_prev_rx = rx_bytes stat, c_prev_tx = tx_bytes stat,
              current_rx = rx_bytes stat, current_tx = tx_bytes stat\<rparr>)\<rparr>, []))
   \<and> (port_key d p = port_key d' p' \<longrightarrow> d = d' \<and> p = p')"
  using port_key_inj[of d p d' p']
  by (simp add: SLB_update_first LBC_port_stats_def Let_def)

theorem C6_first_sample_is_baseline_witness:
  "SLB_handle_PortStatsReceived SLB_init ''00-00-00-00-00-01''
     [(\<lparr>port_no = 3, rx_bytes = 1250000, tx_bytes = 400\<rparr>, 17)]
   = (\<lparr>mac_table = Map.empty,
       flow_counters = [''00-00-00-00-00-01-3'' \<mapsto>
          \<lparr>prev_rx = 1250000, prev_tx = 400, prev_time = 17, utilization = 0\<rparr>],
       congested_links = {}\<rparr>, [])
   \<and> LBC_handle_PortStatsReceived LBC_init ''00-00-00-00-00-01''
     [\<lparr>port_no = 3, rx_bytes = 1250000, tx_bytes = 400\<rparr>]
   = (\<lparr>switch_stats = {},
       lbc_flow_counters = [''00-00-00-00-00-01-3'' \<mapsto>
          \<lparr>c_prev_rx = 1250000, c_prev_tx = 400,
           current_rx = 1250000, current_tx = 400\<rparr>],
       mac_to_port = Map.empty\<rparr>, [])"
  using C6_first_sample_is_baseline
          [of SLB_init "''00-00-00-00-00-01''" 3
              "\<lparr>port_no = 3, rx_bytes = 1250000, tx_bytes = 400\<rparr>" 17 LBC_init]
  by (simp add: example_key SLB_init_def LBC_init_def OFPP_MAX_def)

text \<open>
  C7, as amended. For a sample of a port that has a counter entry: in
  \<^verbatim>\<open>SimpleLoadBalancer\<close>, if the clock has advanced since the stored sample, the entry
  is replaced by the sample and the stored utilization is the sum of the two byte deltas,
  each divided by the elapsed time, over the link capacity; if the clock has not advanced,
  the state is unchanged and no log record is emitted. In
  \<^verbatim>\<open>LoadBalancerController\<close> there is no time stamp: every sample shifts the current
  counts to the previous ones, and the rates are the byte deltas divided by the fixed
  monitoring interval of 5 seconds.
\<close>

theorem C7_rates_of_later_samples:
  "(flow_counters s (port_key d p) = Some c \<and> prev_time c < now \<longrightarrow>
      flow_counters (fst (SLB_update_link_stats s d p stat now)) (port_key d p) =
        Some \<lparr>prev_rx = rx_bytes stat, prev_tx = tx_bytes stat, prev_time = now,
              utilization =
                (wall_clock_rate (rx_bytes stat - prev_rx c) (now - prev_time c)
                 + wall_clock_rate (tx_bytes stat - prev_tx c) (now - prev_time c))
                / link_capacity\<rparr>)
   \<and> (flow_counters s (port_key d p) = Some c \<and> now \<le> prev_time c \<longrightarrow>
      SLB_update_link_stats s d p stat now = (s, []))
   \<and> (lbc_flow_counters u (port_key d (port_no stat)) = Some k \<longrightarrow>
      LBC_port_stats u d stat =
        (u\<lparr>lbc_flow_counters := (lbc_flow_counters u)(port_key d (port_no stat) \<mapsto>
             \<lparr>c_prev_rx = current_rx k, c_prev_tx = current_tx k,
              current_rx = rx_bytes stat, current_tx = tx_bytes stat\<rparr>)\<rparr>,
         (if of_int (rx_bytes stat - current_rx k) / 5 > (1000 :: rat)
             \<or> of_int (tx_bytes stat - current_tx k) / 5 > (1000 :: rat)
          then [Usage_info d (port_no stat)
                  (of_int (rx_bytes stat - current_rx k) / 5)
                  (of_int (tx_bytes stat - current_tx k) / 5)]
          else [])
         @ (if of_int (rx_bytes stat - current_rx k) / 5
               + of_int (tx_bytes stat - current_tx k) / 5 > (1000000 :: rat)
            then [Potential_congestion d (port_no stat)
                    (of_int (rx_bytes stat - current_rx k) / 5
                     + of_int (tx_bytes stat - current_tx k) / 5)]
            else [])))"
proof -
  have a: "flow_counters s (port_key d p) = Some c \<Longrightarrow> prev_time c < now \<Longrightarrow>
      flow_counters (fst (SLB_update_link_stats s d p stat now)) (port_key d p) =
        Some \<lparr>prev_rx = rx_bytes stat, prev_tx = tx_bytes stat, prev_time = now,
              utilization =
                (wall_clock_rate (rx_bytes stat - prev_rx c) (now - prev_time c)
                 + wall_clock_rate (tx_bytes stat - prev_tx c) (now - prev_time c))
                / link_capacity\<rparr>"
    by (simp add: SLB_update_fresh spec_utilization_def wall_clock_rate_def)
  have b: "flow_counters s (port_key d p) = Some c \<Longrightarrow> now \<le> prev_time c \<Longrightarrow>
      SLB_update_link_stats s d p stat now = (s, [])"
    by (rule SLB_update_stale)
  have c: "lbc_flow_counters u (port_key d (port_no stat)) = Some k \<Longrightarrow>
      LBC_port_stats u d stat =
        (u\<lparr>lbc_flow_counters := (lbc_flow_counters u)(port_key d (port_no stat) \<mapsto>
             \<lparr>c_prev_rx = current_rx k, c_prev_tx = current_tx k,
              current_rx = rx_bytes stat, current_tx = tx_bytes stat\<rparr>)\<rparr>,
         (if of_int (rx_bytes stat - current_rx k) / 5 > (1000 :: rat)
             \<or> of_int (tx_bytes stat - current_tx k) / 5 > (1000 :: rat)
          then [Usage_info d (port_no stat)
                  (of_int (rx_bytes stat - current_rx k) / 5)
                  (of_int (tx_bytes stat - current_tx k) / 5)]
          else [])
         @ (if of_int (rx_bytes stat - current_rx k) / 5
               + of_int (tx_bytes stat - current_tx k) / 5 > (1000000 :: rat)
            then [Potential_congestion d (port_no stat)
                    (of_int (rx_bytes stat - current_rx k) / 5
                     + of_int (tx_bytes stat - current_tx k) / 5)]
            else []))"
    by (cases k) (simp add: LBC_port_stats_def Let_def monitoring_interval_def)
  show ?thesis using a b c by blast
qed

theorem C7_rates_of_later_samples_witness:
  "flow_counters
     (fst (SLB_update_link_stats
        \<lparr>mac_table = Map.empty,
         flow_counters = [''00-00-00-00-00-01-3'' \<mapsto>
            \<lparr>prev_rx = 0, prev_tx = 0, prev_time = 10, utilization = 0\<rparr>],
         congested_links = {}\<rparr>
        ''00-00-00-00-00-01'' 3 \<lparr>port_no = 3, rx_bytes = 1250000, tx_bytes = 0\<rparr> 15))
     ''00-00-00-00-00-01-3''
   = Some \<lparr>prev_rx = 1250000, prev_tx = 0, prev_time = 15, utilization = 625 / 32768\<rparr>
   \<and> SLB_update_link_stats
        \<lparr>mac_table = Map.empty,
         flow_counters = [''00-00-00-00-00-01-3'' \<mapsto>
            \<lparr>prev_rx = 0, prev_tx = 0, prev_time = 10, utilization = 0\<rparr>],
         congested_links = {}\<rparr>
        ''00-00-00-00-00-01'' 3 \<lparr>port_no = 3, rx_bytes = 10000, tx_bytes = 0\<rparr> 10
     = (\<lparr>mac_table = Map.empty,
         flow_counters = [''00-00-00-00-00-01-3'' \<mapsto>
            \<lparr>prev_rx = 0, prev_tx = 0, prev_time = 10, utilization = 0\<rparr>],
         congested_links = {}\<rparr>, [])
   \<and> snd (LBC_port_stats
        \<lparr>switch_stats = {},
         lbc_flow_counters = [''00-00-00-00-00-01-3'' \<mapsto>
            \<lparr>c_prev_rx = 0, c_prev_tx = 0, current_rx = 0, current_tx = 0\<rparr>],
         mac_to_port = Map.empty\<rparr>
        ''00-00-00-00-00-01'' \<lparr>port_no = 3, rx_bytes = 10000, tx_bytes = 0\<rparr>)
     = [Usage_info ''00-00-00-00-00-01'' 3 2000 0]"
  using C7_rates_of_later_samples
          [of "\<lparr>mac_table = Map.empty,
                flow_counters = [''00-00-00-00-00-01-3'' \<mapsto>
                   \<lparr>prev_rx = 0, prev_tx = 0, prev_time = 10, utilization = 0\<rparr>],
                congested_links = {}\<rparr>"
              "''00-00-00-00-00-01''" 3
              "\<lparr>prev_rx = 0, prev_tx = 0, prev_time = 10, utilization = 0\<rparr>" 15
              "\<lparr>port_no = 3, rx_bytes = 1250000, tx_bytes = 0\<rparr>"
              LBC_init
              "\<lparr>c_prev_rx = 0, c_prev_tx = 0, current_rx = 0, current_tx = 0\<rparr>"]
        C7_rates_of_later_samples
          [of "\<lparr>mac_table = Map.empty,
                flow_counters = [''00-00-00-00-00-01-3'' \<mapsto>
                   \<lparr>prev_rx = 0, prev_tx = 0, prev_time = 10, utilization = 0\<rparr>],
                congested_links = {}\<rparr>"
              "''00-00-00-00-00-01''" 3
              "\<lparr>prev_rx = 0, prev_tx = 0, prev_time = 10, utilization = 0\<rparr>" 10
              "\<lparr>port_no = 3, rx_bytes = 10000, tx_bytes = 0\<rparr>"
              "\<lparr>switch_stats = {},
                lbc_flow_counters = [''00-00-00-00-00-01-3'' \<mapsto>
                   \<lparr>c_prev_rx = 0, c_prev_tx = 0, current_rx = 0, current_tx = 0\<rparr>],
                mac_to_port = Map.empty\<rparr>"
              "\<lparr>c_prev_rx = 0, c_prev_tx = 0, current_rx = 0, current_tx = 0\<rparr>"]
  by (simp add: example_key wall_clock_rate_def link_capacity_def LBC_init_def)

text \<open>
  The claim as written fails for \<^verbatim>\<open>LoadBalancerController\<close>. Two samples of a port
  with received byte counts 0 and 10000 give the reported rate 2000 bytes per second,
  whatever time lies between them; for samples one second apart the byte delta over the
  elapsed wall-clock time is 10000.
\<close>

theorem C7_counterexample:
  "LBC_handle_PortStatsReceived
     (fst (LBC_handle_PortStatsReceived LBC_init ''00-00-00-00-00-01''
        [\<lparr>port_no = 3, rx_bytes = 0, tx_bytes = 0\<rparr>]))
     ''00-00-00-00-00-01'' [\<lparr>port_no = 3, rx_bytes = 10000, tx_bytes = 0\<rparr>]
   = (\<lparr>switch_stats = {},
       lbc_flow_counters = [''00-00-00-00-00-01-3'' \<mapsto>
          \<lparr>c_prev_rx = 0, c_prev_tx = 0, current_rx = 10000, current_tx = 0\<rparr>],
       mac_to_port = Map.empty\<rparr>,
      [Usage_info ''00-00-00-00-00-01'' 3 2000 0])
   \<and> (2000 :: rat) \<noteq> wall_clock_rate 10000 1"
  by (simp add: LBC_port_stats_def Let_def LBC_init_def example_key OFPP_MAX_def
      monitoring_interval_def wall_clock_rate_def)

text \<open>
  C8, as amended. In \<^verbatim>\<open>SimpleLoadBalancer\<close> the connection-up handler sends, as its
  first command, exactly one flow rule to the switch: wildcard match, output to the
  controller, priority 0, idle and hard timeout 0 (none); the statistics request follows,
  and the switch gets its empty learning table, without which no packet-in of it is
  processed. In \<^verbatim>\<open>LoadBalancerController\<close> the connection-up handler installs no
  rule: it only requests statistics.
\<close>

theorem C8_table_miss_on_connection_up:
  "snd (SLB_handle_ConnectionUp s dpid connections) =
     [Send dpid (Flow_mod \<lparr>match = ofp_match_all,
                           actions = [ofp_action_output OFPP_CONTROLLER],
                           priority = 0, idle_timeout = 0, hard_timeout = 0\<rparr>),
      Send dpid Port_stats_request, CallLater 5]
   \<and> length (filter is_flow_mod (snd (SLB_handle_ConnectionUp s dpid connections))) = 1
   \<and> mac_table (fst (SLB_handle_ConnectionUp s dpid connections)) dpid = Some Map.empty
   \<and> snd (LBC_handle_ConnectionUp u dpid connections) =
       [Send dpid Port_stats_request, CallLater 5]
   \<and> filter is_flow_mod (snd (LBC_handle_ConnectionUp u dpid connections)) = []"
  by (simp add: SLB_handle_ConnectionUp_def LBC_handle_ConnectionUp_def
      SLB_request_stats_def LBC_request_stats_def SLB_request_stats_for_connection_def
      LBC_request_stats_for_connection_def ofp_flow_mod_new_def is_flow_mod_def
      monitoring_interval_def Let_def)

theorem C8_table_miss_on_connection_up_witness:
  "hd (snd (SLB_handle_ConnectionUp SLB_init ''00-00-00-00-00-01'' [])) =
     Send ''00-00-00-00-00-01''
       (Flow_mod \<lparr>match = ofp_match_all, actions = [ofp_action_output OFPP_CONTROLLER],
                  priority = 0, idle_timeout = 0, hard_timeout = 0\<rparr>)
   \<and> snd (LBC_handle_ConnectionUp LBC_init ''00-00-00-00-00-01'' []) =
       [Send ''00-00-00-00-00-01'' Port_stats_request, CallLater 5]"
  using C8_table_miss_on_connection_up [of SLB_init "''00-00-00-00-00-01''" "[]" LBC_init]
  by simp

text \<open>
  The claim as written fails for \<^verbatim>\<open>LoadBalancerController\<close>: its connection-up
  handler sends no flow rule.
\<close>

theorem C8_counterexample:
  "filter is_flow_mod (snd (LBC_handle_ConnectionUp LBC_init ''00-00-00-00-00-01'' [])) = []"
  by (simp add: LBC_handle_ConnectionUp_def LBC_request_stats_def
      LBC_request_stats_for_connection_def is_flow_mod_def)

text \<open>
  C9. A parsed packet-in whose destination is found in the switch's learning table, after
  the source has been learned, and which is forwarded as unicast (in
  \<^verbatim>\<open>SimpleLoadBalancer\<close> a packet that is neither LLDP, IPv6 nor ARP; in
  \<^verbatim>\<open>LoadBalancerController\<close> a learned port other than the reserved flood port) is
  answered by exactly two commands: one flow rule whose match is extracted from the packet
  at the ingress port, whose action outputs to the learned port, with idle timeout 10,
  hard timeout 30 and the default priority; then one packet-out of the triggering packet
  to that same port.
\<close>

theorem C9_unicast_flow_and_packet_out:
  "(parsed (ev_parsed event) \<and> mac_table s (ev_dpid event) = Some t
     \<and> type (ev_parsed event) \<noteq> LLDP_TYPE \<and> type (ev_parsed event) \<noteq> IPV6_TYPE
     \<and> type (ev_parsed event) \<noteq> ARP_TYPE
     \<and> (if t (src (ev_parsed event)) = None
         then t(src (ev_parsed event) \<mapsto> ev_port event) else t) (dst (ev_parsed event))
        = Some out_port
    \<longrightarrow> (\<exists>s'. SLB_handle_PacketIn s event = Inr (s',
          [Send (ev_dpid event)
             (Flow_mod \<lparr>match = from_packet (ev_parsed event) (ev_port event),
                        actions = [ofp_action_output out_port],
                        priority = OFP_DEFAULT_PRIORITY,
                        idle_timeout = 10, hard_timeout = 30\<rparr>),
           Send (ev_dpid event)
             (Packet_out \<lparr>data = Of_packet_in (ev_ofp event),
                          po_actions = [ofp_action_output out_port],
                          in_port = ev_port event\<rparr>)])))
   \<and> (parsed (ev_parsed event) \<and> mac_to_port u (ev_dpid event) = Some t
     \<and> (t(src (ev_parsed event) \<mapsto> ev_port event)) (dst (ev_parsed event)) = Some out_port
     \<and> out_port \<noteq> OFPP_FLOOD
    \<longrightarrow> (\<exists>u'. LBC_handle_PacketIn u event = Inr (u',
          [Send (ev_dpid event)
             (Flow_mod \<lparr>match = from_packet (ev_parsed event) (ev_port event),
                        actions = [ofp_action_output out_port],
                        priority = OFP_DEFAULT_PRIORITY,
                        idle_timeout = 10, hard_timeout = 30\<rparr>),
           Send (ev_dpid event)
             (Packet_out \<lparr>data = Raw (pi_data (ev_ofp event)),
                          po_actions = [ofp_action_output out_port],
                          in_port = pi_in_port (ev_ofp event)\<rparr>)])))"
  by (auto simp add: SLB_handle_PacketIn_def LBC_handle_PacketIn_def Let_def
      SLB_handle_other_packet_def SLB_install_flow_def SLB_send_packet_def
      LBC_install_flow_def LBC_send_packet_def ofp_flow_mod_new_def)

theorem C9_unicast_flow_and_packet_out_witness:
  "(\<exists>s'. SLB_handle_PacketIn
       \<lparr>mac_table = [''00-00-00-00-00-01'' \<mapsto> [0xaa \<mapsto> 1]],
        flow_counters = Map.empty, congested_links = {}\<rparr>
       (example_packet_in ''00-00-00-00-00-01'' 2 0xbb 0xaa 0x0800)
     = Inr (s',
          [Send ''00-00-00-00-00-01''
             (Flow_mod \<lparr>match = from_packet
                           \<lparr>parsed = True, src = 0xbb, dst = 0xaa, type = 0x0800\<rparr> 2,
                        actions = [ofp_action_output 1],
                        priority = OFP_DEFAULT_PRIORITY,
                        idle_timeout = 10, hard_timeout = 30\<rparr>),
           Send ''00-00-00-00-00-01''
             (Packet_out \<lparr>data = Of_packet_in \<lparr>pi_data = [], pi_in_port = 2\<rparr>,
                          po_actions = [ofp_action_output 1], in_port = 2\<rparr>)]))
   \<and> (\<exists>u'. LBC_handle_PacketIn
       \<lparr>switch_stats = {''00-00-00-00-00-01''}, lbc_flow_counters = Map.empty,
        mac_to_port = [''00-00-00-00-00-01'' \<mapsto> [0xaa \<mapsto> 1]]\<rparr>
       (example_packet_in ''00-00-00-00-00-01'' 2 0xbb 0xaa 0x0800)
     = Inr (u',
          [Send ''00-00-00-00-00-01''
             (Flow_mod \<lparr>match = from_packet
                           \<lparr>parsed = True, src = 0xbb, dst = 0xaa, type = 0x0800\<rparr> 2,
                        actions = [ofp_action_output 1],
                        priority = OFP_DEFAULT_PRIORITY,
                        idle_timeout = 10, hard_timeout = 30\<rparr>),
           Send ''00-00-00-00-00-01''
             (Packet_out \<lparr>data = Raw [],
                          po_actions = [ofp_action_output 1], in_port = 2\<rparr>)]))"
  using C9_unicast_flow_and_packet_out
          [of "example_packet_in ''00-00-00-00-00-01'' 2 0xbb 0xaa 0x0800"
              "\<lparr>mac_table = [''00-00-00-00-00-01'' \<mapsto> [0xaa \<mapsto> 1]],
                flow_counters = Map.empty, congested_links = {}\<rparr>"
              "[0xaa \<mapsto> 1]" 1
              "\<lparr>switch_stats = {''00-00-00-00-00-01''}, lbc_flow_counters = Map.empty,
                mac_to_port = [''00-00-00-00-00-01'' \<mapsto> [0xaa \<mapsto> 1]]\<rparr>"]
  by (simp add: example_packet_in_def LLDP_TYPE_def IPV6_TYPE_def ARP_TYPE_def
      OFPP_FLOOD_def)

text \<open>
  C10. The invariant \<open>SLB_inv\<close> (every key of the congested set has a counter entry,
  and a key with a counter entry is in the congested set exactly when the stored
  utilization of the entry is strictly above the threshold) holds in the initial state of
  \<^verbatim>\<open>SimpleLoadBalancer\<close> and is preserved by the connection-up handler, by the
  packet-in handler (which, when it raises, leaves the state as it was) and by the
  port-statistics handler for any list of samples. A first sample creates its entry with
  utilization 0 for a key that the invariant keeps out of the congested set. The periodic
  statistics request does not touch the state.
\<close>

theorem C10_congested_set_invariant:
  "SLB_inv SLB_init
   \<and> (SLB_inv s \<longrightarrow> SLB_inv (fst (SLB_handle_ConnectionUp s d connections)))
   \<and> (SLB_inv s \<longrightarrow> (\<forall>s' effs. SLB_handle_PacketIn s e = Inr (s', effs) \<longrightarrow> SLB_inv s'))
   \<and> (SLB_inv s \<longrightarrow> SLB_inv (fst (SLB_handle_PortStatsReceived s d stats)))
   \<and> (SLB_inv s \<and> flow_counters s (port_key d p) = None \<longrightarrow>
        port_key d p \<notin> congested_links (fst (SLB_update_link_stats s d p stat now))
        \<and> map_option utilization
            (flow_counters (fst (SLB_update_link_stats s d p stat now)) (port_key d p))
          = Some 0)"
proof -
  have a: "SLB_inv SLB_init" by (simp add: SLB_inv_def SLB_init_def)
  have b: "SLB_inv s \<Longrightarrow> SLB_inv (fst (SLB_handle_ConnectionUp s d connections))"
    by (simp add: SLB_inv_def SLB_handle_ConnectionUp_def Let_def)
  have c: "SLB_inv s \<Longrightarrow> SLB_handle_PacketIn s e = Inr (s', effs) \<Longrightarrow> SLB_inv s'" for s' effs
    using SLB_PacketIn_stats_unchanged[of s e s' effs] by (simp add: SLB_inv_def)
  have f: "SLB_inv s \<Longrightarrow> flow_counters s (port_key d p) = None \<Longrightarrow>
        port_key d p \<notin> congested_links (fst (SLB_update_link_stats s d p stat now))
        \<and> map_option utilization
            (flow_counters (fst (SLB_update_link_stats s d p stat now)) (port_key d p))
          = Some 0"
    by (auto simp: SLB_update_first SLB_inv_def)
  show ?thesis using a b c f SLB_inv_stats[of s d stats] by blast
qed

theorem C10_congested_set_invariant_witness:
  "SLB_inv
     \<lparr>mac_table = Map.empty,
      flow_counters = [''00-00-00-00-00-01-3'' \<mapsto>
         \<lparr>prev_rx = 100000000, prev_tx = 0, prev_time = 10, utilization = 3125 / 4096\<rparr>],
      congested_links = {''00-00-00-00-00-01-3''}\<rparr>
   \<and> SLB_inv (fst (SLB_handle_PortStatsReceived
        \<lparr>mac_table = Map.empty,
         flow_counters = [''00-00-00-00-00-01-3'' \<mapsto>
            \<lparr>prev_rx = 100000000, prev_tx = 0, prev_time = 10, utilization = 3125 / 4096\<rparr>],
         congested_links = {''00-00-00-00-00-01-3''}\<rparr>
        ''00-00-00-00-00-01''
        [(\<lparr>port_no = 3, rx_bytes = 105000000, tx_bytes = 0\<rparr>, 15),
         (\<lparr>port_no = 4, rx_bytes = 7, tx_bytes = 9\<rparr>, 15)]))
   \<and> SLB_inv (fst (SLB_handle_ConnectionUp
        \<lparr>mac_table = Map.empty,
         flow_counters = [''00-00-00-00-00-01-3'' \<mapsto>
            \<lparr>prev_rx = 100000000, prev_tx = 0, prev_time = 10, utilization = 3125 / 4096\<rparr>],
         congested_links = {''00-00-00-00-00-01-3''}\<rparr>
        ''00-00-00-00-00-01'' []))"
proof -
  let ?s = "\<lparr>mac_table = Map.empty,
      flow_counters = [''00-00-00-00-00-01-3'' \<mapsto>
         \<lparr>prev_rx = 100000000, prev_tx = 0, prev_time = 10, utilization = 3125 / 4096\<rparr>],
      congested_links = {''00-00-00-00-00-01-3''}\<rparr>"
  have i: "SLB_inv ?s"
    by (auto simp add: SLB_inv_def congestion_threshold_def split: if_splits)
  show ?thesis
    using i C10_congested_set_invariant
          [of ?s "''00-00-00-00-00-01''" "[]" _
              "[(\<lparr>port_no = 3, rx_bytes = 105000000, tx_bytes = 0\<rparr>, 15),
                (\<lparr>port_no = 4, rx_bytes = 7, tx_bytes = 9\<rparr>, 15)]"]
    by blast
qed

end
